theory Spec2Isabelle
  imports Main "HOL-Library.Word" "HOL-Library.Signed_Division"
begin

section \<open>C types of the benchmark (amd64, LP64)\<close>

text \<open>
  The program is built for a 64-bit L4Re target: \<open>long\<close>, \<open>time_t\<close>, \<open>l4_umword_t\<close> and
  \<open>unsigned long long\<close> are 64 bits wide, \<open>int\<close> and \<open>unsigned\<close> are 32 bits wide.
  All of them are words; a signed type is read through \<open>sint\<close>. Arithmetic that mixes
  \<open>long\<close> and \<open>l4_umword_t\<close> is carried out on \<open>unsigned long\<close> and stored back, which is
  addition and subtraction modulo \<open>2 ^ 64\<close>.
\<close>

type_synonym c_long = "64 word"
type_synonym c_unsigned = "32 word"
type_synonym c_int = "32 word"
type_synonym l4_umword_t = "64 word"
type_synonym c_ull = "64 word"

record timespec =
  tv_sec :: c_long
  tv_nsec :: c_long

text \<open>\<open>l4_msgtag(label, words, items, flags)\<close>.\<close>

record l4_msgtag_t =
  tag_label :: c_long
  tag_words :: c_unsigned
  tag_items :: c_unsigned
  tag_flags :: c_unsigned

definition l4_msgtag :: "c_long \<Rightarrow> c_unsigned \<Rightarrow> c_unsigned \<Rightarrow> c_unsigned \<Rightarrow> l4_msgtag_t" where
  "l4_msgtag l w it f = \<lparr>tag_label = l, tag_words = w, tag_items = it, tag_flags = f\<rparr>"

datatype l4_timeout_t =
  L4_IPC_NEVER | L4_IPC_RECV_TIMEOUT_0 | L4_IPC_SEND_TIMEOUT_0 | L4_IPC_BOTH_TIMEOUT_0

text \<open>
  What the program does to the outside, in program order: the lines it prints and the
  kernel operations it issues. A \<open>printf\<close> is recorded with its arguments.
\<close>

datatype event =
    Stderr_thread1_ipc_error c_int
  | Stderr_thread2_ipc_error c_int
  | Stderr_thread_creation_failed
  | Stdout_error_migrating l4_umword_t c_unsigned
  | Stdout_migrated l4_umword_t c_unsigned
  | Stdout_total_time c_long c_long
  | Stdout_avg_time c_long c_long
  | Stdout_avg_cycles c_ull
  | L4_ipc_call l4_msgtag_t l4_timeout_t
  | L4_ipc_wait l4_timeout_t
  | L4_ipc_reply_and_wait l4_msgtag_t l4_timeout_t
  | Sched_run_thread l4_umword_t c_unsigned c_unsigned

section \<open>The initiator, \<open>thread1_fn\<close>\<close>

text \<open>
  What the environment answers during one pass through the loop body: the clock, the two
  reads of the cycle counter around the call, the error code \<open>l4_ipc_error\<close> extracts from
  the returned tag, and the message registers as the call left them.
\<close>

record attempt =
  tp :: timespec
  tsc_start :: c_ull
  tsc_end :: c_ull
  ipc_error :: c_int
  reply_mr :: "nat \<Rightarrow> l4_umword_t"

record thread1_state =
  ts_total :: timespec
  tsc_sum :: c_ull
  mr :: "nat \<Rightarrow> l4_umword_t"
  out :: "event list"

text \<open>
  The success branch of the body (source lines 64 to 71): the reply is in \<open>mr[0]\<close> and
  \<open>mr[1]\<close>, the comparison is on \<open>long\<close>.
\<close>

definition add_elapsed :: "timespec \<Rightarrow> (nat \<Rightarrow> l4_umword_t) \<Rightarrow> timespec \<Rightarrow> timespec" where
  "add_elapsed tp_send m tot =
     (if m 1 <s tv_nsec tp_send
      then \<lparr>tv_sec = tv_sec tot + (m 0 + 1 - tv_sec tp_send),
            tv_nsec = tv_nsec tot + (m 1 + 1000000000 - tv_nsec tp_send)\<rparr>
      else \<lparr>tv_sec = tv_sec tot + (m 0 - tv_sec tp_send),
            tv_nsec = tv_nsec tot + (m 1 - tv_nsec tp_send)\<rparr>)"

text \<open>
  One pass through the loop body, without the \<open>++i\<close> of the loop head. The result carries the
  counter as the body leaves it.
\<close>

definition thread1_body :: "attempt \<Rightarrow> c_unsigned \<Rightarrow> thread1_state \<Rightarrow> c_unsigned \<times> thread1_state" where
  "thread1_body a i s =
     (let s1 = s\<lparr>mr := reply_mr a,
                 out := out s @ [L4_ipc_call (l4_msgtag 0 0 0 0) L4_IPC_NEVER]\<rparr>;
          s2 = s1\<lparr>tsc_sum := tsc_sum s1 + (tsc_end a - tsc_start a)\<rparr>;
          r = (if ipc_error a \<noteq> 0
               then (i - 1, s2\<lparr>out := out s2 @ [Stderr_thread1_ipc_error (ipc_error a)]\<rparr>)
               else (i, s2\<lparr>ts_total := add_elapsed (tp a) (mr s2) (ts_total s2)\<rparr>))
      in (fst r, (snd r)\<lparr>mr := (mr (snd r))(0 := 0, 1 := 0)\<rparr>))"

text \<open>
  The \<open>for\<close> loop. It need not end (a transport that always fails keeps it running), so it is a
  partial function: \<open>None\<close> is a run that never leaves the loop. \<open>env k\<close> is what the
  environment answers in pass \<open>k\<close>; the first component of the result counts the passes made.
  The bound is an argument, so that the loop can also be run with a small bound; the program
  passes \<open>BENCH_SIZE\<close>.
\<close>

partial_function (option) thread1_loop ::
  "c_unsigned \<Rightarrow> (nat \<Rightarrow> attempt) \<Rightarrow> nat \<Rightarrow> c_unsigned \<Rightarrow> thread1_state \<Rightarrow> (nat \<times> thread1_state) option" where
  "thread1_loop bench_size env k i s =
     (if i < bench_size
      then thread1_loop bench_size env (Suc k)
             (fst (thread1_body (env k) i s) + 1) (snd (thread1_body (env k) i s))
      else Some (k, s))"

definition BENCH_SIZE :: c_unsigned where
  "BENCH_SIZE = 100000"

text \<open>Division and remainder on \<open>long\<close>: C truncates towards zero.\<close>

definition long_div :: "c_long \<Rightarrow> c_long \<Rightarrow> c_long" where
  "long_div a b = word_of_int (sint a sdiv sint b)"

definition long_mod :: "c_long \<Rightarrow> c_long \<Rightarrow> c_long" where
  "long_mod a b = word_of_int (sint a smod sint b)"

text \<open>
  The three \<open>printf\<close> calls after the loop (source lines 80 to 85). \<open>BENCH_SIZE\<close> is
  converted to \<open>long\<close> for the two divisions on \<open>long\<close> and to \<open>unsigned long long\<close> for the
  last one. The product \<open>seconds_as_ns\<close> is taken modulo \<open>2 ^ 64\<close>, as the machine
  multiplies; a total between 0 and 9223372036 seconds does not overflow it.
\<close>

definition report :: "thread1_state \<Rightarrow> event list" where
  "report s =
     (let seconds_as_ns = tv_sec (ts_total s) * 1000000000
      in [Stdout_total_time (tv_sec (ts_total s)) (tv_nsec (ts_total s)),
          Stdout_avg_time
            (long_div (long_div seconds_as_ns 1000000000) (ucast BENCH_SIZE))
            (long_div (tv_nsec (ts_total s) + long_mod seconds_as_ns 1000000000) (ucast BENCH_SIZE)),
          Stdout_avg_cycles (tsc_sum s div ucast BENCH_SIZE)])"

definition thread1_init :: "(nat \<Rightarrow> l4_umword_t) \<Rightarrow> thread1_state" where
  "thread1_init utcb_mr = \<lparr>ts_total = \<lparr>tv_sec = 0, tv_nsec = 0\<rparr>, tsc_sum = 0, mr = utcb_mr, out = []\<rparr>"

text \<open>
  The whole function: the loop with bound \<open>BENCH_SIZE\<close>, started with the counter and the
  totals at zero, then the report. The result is everything the thread printed and issued.
\<close>

definition thread1_fn :: "(nat \<Rightarrow> attempt) \<Rightarrow> (nat \<Rightarrow> l4_umword_t) \<Rightarrow> event list option" where
  "thread1_fn env utcb_mr =
     (case thread1_loop BENCH_SIZE env 0 0 (thread1_init utcb_mr) of
        None \<Rightarrow> None
      | Some (k, s) \<Rightarrow> Some (out s @ report s))"

section \<open>The responder, \<open>thread2_fn\<close>\<close>

text \<open>
  One wake-up of the responder: the error code of the tag the wait returned and what the
  clock reads at that moment.
\<close>

record wakeup =
  wake_error :: c_int
  wake_clock :: timespec

record thread2_state =
  t2_mr :: "nat \<Rightarrow> l4_umword_t"
  t2_out :: "event list"

definition thread2_body :: "wakeup \<Rightarrow> thread2_state \<Rightarrow> thread2_state" where
  "thread2_body w s =
     (if wake_error w \<noteq> 0
      then s\<lparr>t2_out := t2_out s @
                 [Stderr_thread2_ipc_error (wake_error w), L4_ipc_wait L4_IPC_NEVER]\<rparr>
      else s\<lparr>t2_mr := (t2_mr s)(0 := tv_sec (wake_clock w), 1 := tv_nsec (wake_clock w)),
             t2_out := t2_out s @ [L4_ipc_reply_and_wait (l4_msgtag 0 2 0 0) L4_IPC_NEVER]\<rparr>)"

text \<open>
  \<open>while (1)\<close> has no exit, so the loop is run on fuel: the first argument is the number of
  wake-ups the responder is given, \<open>env k\<close> is wake-up number \<open>k\<close>. When they are used up the
  responder is still inside the loop, blocked in the kernel operation it issued last, with
  the state it has built. \<open>Returned_NULL\<close> is the \<open>return NULL\<close> after the loop.
\<close>

datatype thread2_result = Returned_NULL | Still_looping thread2_state

fun thread2_loop :: "nat \<Rightarrow> (nat \<Rightarrow> wakeup) \<Rightarrow> nat \<Rightarrow> thread2_state \<Rightarrow> thread2_result" where
  "thread2_loop 0 env k s = Still_looping s"
| "thread2_loop (Suc fuel) env k s = thread2_loop fuel env (Suc k) (thread2_body (env k) s)"

text \<open>The function: the first wait (source line 99), then the loop.\<close>

definition thread2_fn :: "nat \<Rightarrow> (nat \<Rightarrow> wakeup) \<Rightarrow> (nat \<Rightarrow> l4_umword_t) \<Rightarrow> thread2_result" where
  "thread2_fn fuel env utcb_mr =
     thread2_loop fuel env 0 \<lparr>t2_mr = utcb_mr, t2_out = [L4_ipc_wait L4_IPC_NEVER]\<rparr>"

section \<open>The bootstrap, \<open>main\<close>\<close>

text \<open>
  What \<open>main\<close> meets: the result of \<open>pthread_create\<close> and the handle it stored in \<open>t2\<close>,
  the value \<open>l4_error\<close> extracts from the scheduler's answer, and the environment of the
  initiator, which runs in the main thread. The result is the main thread's own events and
  the exit status; the responder's events belong to the other thread.
\<close>

record main_env =
  pthread_create_ret :: c_int
  t2_handle :: l4_umword_t
  run_thread_error :: c_long
  thread1_env :: "nat \<Rightarrow> attempt"
  utcb_mr0 :: "nat \<Rightarrow> l4_umword_t"

text \<open>
  \<open>main\<close> up to the call of \<open>thread1_fn\<close>: the events so far, and the exit status when
  \<open>main\<close> has returned already.
\<close>

definition main_start :: "main_env \<Rightarrow> event list \<times> c_int option" where
  "main_start e =
     (if pthread_create_ret e \<noteq> 0 then ([Stderr_thread_creation_failed], Some 1)
      else
        (let c = 1
         in ([Sched_run_thread (t2_handle e) 20 c] @
             (if run_thread_error e \<noteq> 0 then [Stdout_error_migrating (t2_handle e) c] else []) @
             [Stdout_migrated (t2_handle e) c], None)))"

definition main :: "main_env \<Rightarrow> (event list \<times> c_int) option" where
  "main e =
     (case main_start e of
        (evs, Some status) \<Rightarrow> Some (evs, status)
      | (evs, None) \<Rightarrow>
          (case thread1_fn (thread1_env e) (utcb_mr0 e) of
             None \<Rightarrow> None
           | Some tr \<Rightarrow> Some (evs @ tr, 0)))"

section \<open>Vocabulary of the properties\<close>

text \<open>The successful attempts among the passes \<open>k, \<dots>, k' - 1\<close>, in order.\<close>

definition trials_from :: "(nat \<Rightarrow> attempt) \<Rightarrow> nat \<Rightarrow> nat \<Rightarrow> attempt list" where
  "trials_from env k k' = filter (\<lambda>a. ipc_error a = 0) (map env [k..<k'])"

text \<open>The cycle deltas of all passes \<open>k, \<dots>, k' - 1\<close>, summed modulo \<open>2 ^ 64\<close>.\<close>

definition cycles_from :: "(nat \<Rightarrow> attempt) \<Rightarrow> nat \<Rightarrow> nat \<Rightarrow> c_ull" where
  "cycles_from env k k' = sum_list (map (\<lambda>a. tsc_end a - tsc_start a) (map env [k..<k']))"

text \<open>
  What one pass prints and issues: the call, and the error line when the call failed. Then
  the events of the passes \<open>k, \<dots>, k' - 1\<close>, in order.
\<close>

definition pass_events :: "attempt \<Rightarrow> event list" where
  "pass_events a =
     L4_ipc_call (l4_msgtag 0 0 0 0) L4_IPC_NEVER #
     (if ipc_error a \<noteq> 0 then [Stderr_thread1_ipc_error (ipc_error a)] else [])"

definition events_from :: "(nat \<Rightarrow> attempt) \<Rightarrow> nat \<Rightarrow> nat \<Rightarrow> event list" where
  "events_from env k k' = concat (map pass_events (map env [k..<k']))"

text \<open>The success branch applied to a list of attempts, one after the other.\<close>

definition accumulate :: "timespec \<Rightarrow> attempt list \<Rightarrow> timespec" where
  "accumulate t as = foldl (\<lambda>t a. add_elapsed (tp a) (reply_mr a) t) t as"

text \<open>A reading of the monotonic clock: seconds not negative, nanoseconds below one second.\<close>

definition ts_valid :: "timespec \<Rightarrow> bool" where
  "ts_valid t = (0 \<le> sint (tv_sec t) \<and> 0 \<le> sint (tv_nsec t) \<and> sint (tv_nsec t) < 1000000000)"

text \<open>\<open>a\<close> is not later than \<open>b\<close>.\<close>

definition ts_le :: "timespec \<Rightarrow> timespec \<Rightarrow> bool" where
  "ts_le a b = (sint (tv_sec a) < sint (tv_sec b) \<or>
                (sint (tv_sec a) = sint (tv_sec b) \<and> sint (tv_nsec a) \<le> sint (tv_nsec b)))"

text \<open>
  The subtraction with borrow as the specification words it, on mathematical integers and
  pairs (seconds, nanoseconds): one second is taken from the seconds difference when the
  reply's nanoseconds are below the send's.
\<close>

definition spec_elapsed :: "int \<times> int \<Rightarrow> int \<times> int \<Rightarrow> int \<times> int" where
  "spec_elapsed send reply =
     (if snd reply < snd send
      then (fst reply - fst send - 1, snd reply + 1000000000 - snd send)
      else (fst reply - fst send, snd reply - snd send))"

text \<open>
  The average as the specification words it: the whole duration in nanoseconds divided by
  the number of trials, shown as seconds and the nanoseconds left.
\<close>

definition spec_average :: "int \<Rightarrow> int \<Rightarrow> int \<Rightarrow> int \<times> int" where
  "spec_average sec nsec n =
     (let avg = (sec * 1000000000 + nsec) div n
      in (avg div 1000000000, avg mod 1000000000))"

text \<open>Sample inputs for the instances below.\<close>

definition zero_mr :: "nat \<Rightarrow> l4_umword_t" where
  "zero_mr n = 0"

definition ok_attempt :: attempt where
  "ok_attempt = \<lparr>tp = \<lparr>tv_sec = 7, tv_nsec = 500\<rparr>, tsc_start = 1000, tsc_end = 4000,
     ipc_error = 0, reply_mr = (\<lambda>n. if n = 0 then 7 else if n = 1 then 800 else 0)\<rparr>"

definition failed_attempt :: attempt where
  "failed_attempt = \<lparr>tp = \<lparr>tv_sec = 7, tv_nsec = 100\<rparr>, tsc_start = 500, tsc_end = 900,
     ipc_error = 4, reply_mr = (\<lambda>n. 57005)\<rparr>"

definition flaky_env :: "nat \<Rightarrow> attempt" where
  "flaky_env k = (if k = 0 \<or> k = 2 then failed_attempt else ok_attempt)"

definition sample_state :: thread1_state where
  "sample_state = \<lparr>ts_total = \<lparr>tv_sec = 3, tv_nsec = 250\<rparr>, tsc_sum = 60000,
     mr = (\<lambda>n. 0), out = []\<rparr>"

text \<open>A trial that crosses a second boundary: sent at (0 s, 900 ns), answered at (1 s, 100 ns).\<close>

definition borrow_attempt :: attempt where
  "borrow_attempt = \<lparr>tp = \<lparr>tv_sec = 0, tv_nsec = 900\<rparr>, tsc_start = 0, tsc_end = 7,
     ipc_error = 0, reply_mr = (\<lambda>n. if n = 0 then 1 else 100)\<rparr>"

text \<open>
  A transport without errors whose first round trip takes 1.000005 s and every later one
  5000 ns: trial 0 is sent at (0 s, 0 ns) and answered at (1 s, 5000 ns), trial \<open>k > 0\<close> is
  sent at (\<open>k + 1\<close> s, 0 ns) and answered at (\<open>k + 1\<close> s, 5000 ns).
\<close>

definition slow_first_env :: "nat \<Rightarrow> attempt" where
  "slow_first_env k =
     (if k = 0
      then \<lparr>tp = \<lparr>tv_sec = 0, tv_nsec = 0\<rparr>, tsc_start = 0, tsc_end = 7, ipc_error = 0,
            reply_mr = (\<lambda>n. if n = 0 then 1 else 5000)\<rparr>
      else \<lparr>tp = \<lparr>tv_sec = of_nat k + 1, tv_nsec = 0\<rparr>, tsc_start = 0, tsc_end = 7,
            ipc_error = 0, reply_mr = (\<lambda>n. if n = 0 then of_nat k + 1 else 5000)\<rparr>)"

definition failed_wakeup :: wakeup where
  "failed_wakeup = \<lparr>wake_error = 3, wake_clock = \<lparr>tv_sec = 9, tv_nsec = 111\<rparr>\<rparr>"

definition ok_wakeup :: wakeup where
  "ok_wakeup = \<lparr>wake_error = 0, wake_clock = \<lparr>tv_sec = 9, tv_nsec = 222\<rparr>\<rparr>"

definition mixed_wakeups :: "nat \<Rightarrow> wakeup" where
  "mixed_wakeups k = (if k = 0 then failed_wakeup else ok_wakeup)"

definition unplaced_boot :: main_env where
  "unplaced_boot = \<lparr>pthread_create_ret = 0, t2_handle = 4096, run_thread_error = - 22,
     thread1_env = flaky_env, utcb_mr0 = zero_mr\<rparr>"

definition placed_boot :: main_env where
  "placed_boot = unplaced_boot\<lparr>run_thread_error := 0\<rparr>"

definition threadless_boot :: main_env where
  "threadless_boot = unplaced_boot\<lparr>pthread_create_ret := 11\<rparr>"

section \<open>Facts about one pass through the initiator's loop\<close>

lemma body_fail:
  "ipc_error a \<noteq> 0 \<Longrightarrow>
     fst (thread1_body a i s) = i - 1 \<and> ts_total (snd (thread1_body a i s)) = ts_total s"
  by (simp add: thread1_body_def Let_def)

lemma body_ok:
  "ipc_error a = 0 \<Longrightarrow>
     fst (thread1_body a i s) = i \<and>
     ts_total (snd (thread1_body a i s)) = add_elapsed (tp a) (reply_mr a) (ts_total s)"
  by (simp add: thread1_body_def Let_def)

lemma body_cycles:
  "tsc_sum (snd (thread1_body a i s)) = tsc_sum s + (tsc_end a - tsc_start a)"
  by (simp add: thread1_body_def Let_def)

lemma body_out:
  "out (snd (thread1_body a i s)) = out s @ pass_events a"
  by (simp add: thread1_body_def pass_events_def Let_def)

text \<open>
  C1. The claim: when the reply's nanoseconds are strictly below the send's, the seconds
  difference is reply seconds minus send seconds minus one, and the nanoseconds difference
  is reply nanoseconds plus 1,000,000,000 minus send nanoseconds; otherwise both fields are
  subtracted directly. The code adds one second where the claim takes one away: for a
  successful trial sent at (0 s, 900 ns) and answered at (1 s, 100 ns) the loop body adds
  (2 s, 999999200 ns) to the total, while the subtraction the claim describes gives
  (0 s, 999999200 ns), the time that has passed.
\<close>

theorem C1_borrow_adds_a_second:
  "ts_total (snd (thread1_body borrow_attempt 0 (thread1_init zero_mr))) =
     \<lparr>tv_sec = 2, tv_nsec = 999999200\<rparr>
   \<and> add_elapsed (tp borrow_attempt) (reply_mr borrow_attempt) \<lparr>tv_sec = 0, tv_nsec = 0\<rparr> =
     \<lparr>tv_sec = 2, tv_nsec = 999999200\<rparr>
   \<and> spec_elapsed (0, 900) (1, 100) = (0, 999999200)"
  by (simp add: thread1_body_def borrow_attempt_def thread1_init_def Let_def add_elapsed_def
      spec_elapsed_def word_sless_alt)

text \<open>
  C4. Every pass through the loop body, with or without a transport error, adds the cycle
  delta (counter after the call minus counter before) to \<open>tsc_sum\<close>; a pass whose error code
  is not zero leaves both fields of \<open>ts_total\<close> as they were.
\<close>

theorem C4_cycles_always_time_untouched_on_error:
  "tsc_sum (snd (thread1_body a i s)) = tsc_sum s + (tsc_end a - tsc_start a) \<and>
   (ipc_error a \<noteq> 0 \<longrightarrow>
      tv_sec (ts_total (snd (thread1_body a i s))) = tv_sec (ts_total s) \<and>
      tv_nsec (ts_total (snd (thread1_body a i s))) = tv_nsec (ts_total s))"
  by (simp add: thread1_body_def Let_def)

theorem C4_witness:
  "ipc_error failed_attempt \<noteq> 0 \<and>
   tsc_sum (snd (thread1_body failed_attempt 5 sample_state)) = 60400 \<and>
   tv_sec (ts_total (snd (thread1_body failed_attempt 5 sample_state))) = 3 \<and>
   tv_nsec (ts_total (snd (thread1_body failed_attempt 5 sample_state))) = 250"
  using C4_cycles_always_time_untouched_on_error [of failed_attempt 5 sample_state]
  by (simp add: failed_attempt_def sample_state_def)

text \<open>
  C6. At the end of every pass through the loop body, after a success as after a failure,
  message registers 0 and 1 hold zero.
\<close>

theorem C6_message_registers_cleared:
  "mr (snd (thread1_body a i s)) 0 = 0 \<and> mr (snd (thread1_body a i s)) 1 = 0"
  by (simp add: thread1_body_def Let_def)

text \<open>Signed readings of sums and differences that stay inside the range of \<open>long\<close>.\<close>

lemma sint_sub_nonneg:
  "0 \<le> sint b \<Longrightarrow> sint b \<le> sint a \<Longrightarrow> sint (a - b) = sint a - sint b" for a b :: c_long
proof -
  assume b: "0 \<le> sint b" and ab: "sint b \<le> sint a"
  have "sint a < 2 ^ 63" using sint_lt [of a] by simp
  then have "- (2 ^ 63) \<le> sint a - sint b" "sint a - sint b < 2 ^ 63" using b ab by simp_all
  then show ?thesis by (simp add: sint_word_ariths signed_take_bit_int_eq_self)
qed

lemma sint_add_nonneg:
  "0 \<le> sint a \<Longrightarrow> 0 \<le> sint b \<Longrightarrow> sint a + sint b < 2 ^ 63 \<Longrightarrow>
     sint (a + b) = sint a + sint b" for a b :: c_long
  by (simp add: sint_word_ariths signed_take_bit_int_eq_self)

text \<open>
  In the borrow branch \<open>mr[0] + 1\<close> leaves the range of \<open>long\<close> when the reply's seconds are
  \<open>2 ^ 63 - 1\<close>, and with send seconds 0 nothing is subtracted again: there, and only there
  among clock readings, the seconds added are \<open>- 2 ^ 63\<close>.
\<close>

lemma top_borrow_overflows:
  assumes "sint (m 0) = 2 ^ 63 - 1" and "sint (tv_sec send) = 0" and "m 1 <s tv_nsec send"
  shows "sint (tv_sec (add_elapsed send m tot) - tv_sec tot) = - (2 ^ 63)"
proof -
  have "word_of_int (sint (m 0)) = m 0" by simp
  with assms(1) have m0: "m 0 = 0x7FFFFFFFFFFFFFFF" by simp
  have "word_of_int (sint (tv_sec send)) = tv_sec send" by simp
  with assms(2) have s0: "tv_sec send = 0" by simp
  show ?thesis using assms(3) by (simp add: add_elapsed_def m0 s0)
qed

text \<open>
  C5. For a successful trial whose send timestamp and reply timestamp (message registers 0
  and 1) are clock readings, with the reply later than or equal to the send, what the
  success branch adds to \<open>ts_total\<close> is not negative in either field, its nanoseconds are
  below one second, and so the combined delta is not negative. The one pair of readings
  left aside is the one of the lemma above: reply seconds \<open>2 ^ 63 - 1\<close>, send seconds 0 and
  reply nanoseconds below the send's.
\<close>

theorem C5_elapsed_nonnegative:
  assumes v1: "ts_valid send" and v2: "ts_valid \<lparr>tv_sec = m 0, tv_nsec = m 1\<rparr>"
    and le: "ts_le send \<lparr>tv_sec = m 0, tv_nsec = m 1\<rparr>"
    and top: "\<not> (m 1 <s tv_nsec send \<and> sint (m 0) = 2 ^ 63 - 1 \<and> sint (tv_sec send) = 0)"
  shows "0 \<le> sint (tv_sec (add_elapsed send m tot) - tv_sec tot) \<and>
         0 \<le> sint (tv_nsec (add_elapsed send m tot) - tv_nsec tot) \<and>
         sint (tv_nsec (add_elapsed send m tot) - tv_nsec tot) < 1000000000 \<and>
         0 \<le> sint (tv_sec (add_elapsed send m tot) - tv_sec tot) * 1000000000 +
              sint (tv_nsec (add_elapsed send m tot) - tv_nsec tot)"
proof -
  have m0: "0 \<le> sint (m 0)" and m1: "0 \<le> sint (m 1)" "sint (m 1) < 1000000000"
    and s0: "0 \<le> sint (tv_sec send)"
    and s1: "0 \<le> sint (tv_nsec send)" "sint (tv_nsec send) < 1000000000"
    using v1 v2 by (simp_all add: ts_valid_def)
  have fields: "0 \<le> sint (tv_sec (add_elapsed send m tot) - tv_sec tot) \<and>
         0 \<le> sint (tv_nsec (add_elapsed send m tot) - tv_nsec tot) \<and>
         sint (tv_nsec (add_elapsed send m tot) - tv_nsec tot) < 1000000000"
  proof (cases "m 1 <s tv_nsec send")
    case True
    then have lt: "sint (m 1) < sint (tv_nsec send)" by (simp add: word_sless_alt)
    with le have s: "sint (tv_sec send) < sint (m 0)" by (auto simp: ts_le_def)
    have a2: "0 \<le> sint (m 0 + 1 - tv_sec send)"
    proof (cases "sint (tv_sec send) = 0")
      case True
      with top \<open>m 1 <s tv_nsec send\<close> have "sint (m 0) \<noteq> 2 ^ 63 - 1" by simp
      moreover have "sint (m 0) < 2 ^ 63" using sint_lt [of "m 0"] by simp
      ultimately have below: "sint (m 0) < 2 ^ 63 - 1" by simp
      have a1: "sint (m 0 + 1) = sint (m 0) + 1"
        using sint_add_nonneg [of "m 0" 1] m0 below by simp
      have "sint (m 0 + 1 - tv_sec send) = sint (m 0) + 1 - sint (tv_sec send)"
        using sint_sub_nonneg [of "tv_sec send" "m 0 + 1"] s0 s a1 by simp
      with s show ?thesis by simp
    next
      case False
      with s0 have pos: "0 < sint (tv_sec send)" by simp
      have p: "sint (tv_sec send - 1) = sint (tv_sec send) - 1"
        using sint_sub_nonneg [of 1 "tv_sec send"] pos by simp
      have eq: "m 0 + 1 - tv_sec send = m 0 - (tv_sec send - 1)" by simp
      have "sint (m 0 + 1 - tv_sec send) = sint (m 0 - (tv_sec send - 1))"
        by (simp only: eq)
      also have "\<dots> = sint (m 0) - sint (tv_sec send - 1)"
        using sint_sub_nonneg [of "tv_sec send - 1" "m 0"] p pos s by simp
      also have "\<dots> = sint (m 0) - sint (tv_sec send) + 1"
        using p by simp
      finally have "sint (m 0 + 1 - tv_sec send) = sint (m 0) - sint (tv_sec send) + 1" .
      with s show ?thesis by simp
    qed
    have b1: "sint (m 1 + 1000000000) = sint (m 1) + 1000000000"
      using sint_add_nonneg [of "m 1" 1000000000] m1 by simp
    have b2: "sint (m 1 + 1000000000 - tv_nsec send) =
        sint (m 1) + 1000000000 - sint (tv_nsec send)"
      using sint_sub_nonneg [of "tv_nsec send" "m 1 + 1000000000"] s1 m1 b1 by simp
    show ?thesis using True a2 b2 lt m1 s1 by (simp add: add_elapsed_def)
  next
    case False
    then have ge: "sint (tv_nsec send) \<le> sint (m 1)" by (simp add: word_sless_alt)
    with le have s: "sint (tv_sec send) \<le> sint (m 0)" by (auto simp: ts_le_def)
    have a2: "sint (m 0 - tv_sec send) = sint (m 0) - sint (tv_sec send)"
      using sint_sub_nonneg [OF s0 s] .
    have b2: "sint (m 1 - tv_nsec send) = sint (m 1) - sint (tv_nsec send)"
      using sint_sub_nonneg [OF s1(1) ge] .
    show ?thesis using False a2 b2 s ge m1 s1 by (simp add: add_elapsed_def)
  qed
  then show ?thesis by simp
qed

theorem C5_witness:
  "ts_valid (tp borrow_attempt) \<and>
   ts_valid \<lparr>tv_sec = reply_mr borrow_attempt 0, tv_nsec = reply_mr borrow_attempt 1\<rparr> \<and>
   ts_le (tp borrow_attempt)
     \<lparr>tv_sec = reply_mr borrow_attempt 0, tv_nsec = reply_mr borrow_attempt 1\<rparr> \<and>
   \<not> (reply_mr borrow_attempt 1 <s tv_nsec (tp borrow_attempt) \<and>
      sint (reply_mr borrow_attempt 0) = 2 ^ 63 - 1 \<and> sint (tv_sec (tp borrow_attempt)) = 0) \<and>
   reply_mr borrow_attempt 1 <s tv_nsec (tp borrow_attempt) \<and>
   0 \<le> sint (tv_sec (add_elapsed (tp borrow_attempt) (reply_mr borrow_attempt)
            (ts_total sample_state)) - tv_sec (ts_total sample_state)) \<and>
   0 \<le> sint (tv_nsec (add_elapsed (tp borrow_attempt) (reply_mr borrow_attempt)
            (ts_total sample_state)) - tv_nsec (ts_total sample_state))"
proof -
  have v1: "ts_valid (tp borrow_attempt)" by (simp add: ts_valid_def borrow_attempt_def)
  have v2: "ts_valid \<lparr>tv_sec = reply_mr borrow_attempt 0, tv_nsec = reply_mr borrow_attempt 1\<rparr>"
    by (simp add: ts_valid_def borrow_attempt_def)
  have le: "ts_le (tp borrow_attempt)
      \<lparr>tv_sec = reply_mr borrow_attempt 0, tv_nsec = reply_mr borrow_attempt 1\<rparr>"
    by (simp add: ts_le_def borrow_attempt_def)
  have top: "\<not> (reply_mr borrow_attempt 1 <s tv_nsec (tp borrow_attempt) \<and>
      sint (reply_mr borrow_attempt 0) = 2 ^ 63 - 1 \<and> sint (tv_sec (tp borrow_attempt)) = 0)"
    by (simp add: borrow_attempt_def)
  have b: "reply_mr borrow_attempt 1 <s tv_nsec (tp borrow_attempt)"
    by (simp add: borrow_attempt_def word_sless_alt)
  from C5_elapsed_nonnegative [OF v1 v2 le top, of "ts_total sample_state"] v1 v2 le top b
  show ?thesis by blast
qed

section \<open>The loop of the initiator\<close>

lemma counter_step:
  "i < n \<Longrightarrow> i + 1 \<le> n \<and> unat (i + 1) = Suc (unat i)" for i n :: c_unsigned
  by (metis add.commute inc_le interval_class.inc_less_eq_imp_less
    plus_1_eq_Suc unat_plus_simple unsigned_1 word_le_less_eq)

lemma trials_from_Cons:
  "k < N \<Longrightarrow> trials_from env k N =
     (if ipc_error (env k) = 0 then [env k] else []) @ trials_from env (Suc k) N"
  by (simp add: trials_from_def upt_conv_Cons)

lemma events_from_Cons:
  "k < N \<Longrightarrow> events_from env k N = pass_events (env k) @ events_from env (Suc k) N"
  by (simp add: events_from_def upt_conv_Cons)

lemma cycles_from_Cons:
  "k < N \<Longrightarrow>
     cycles_from env k N = (tsc_end (env k) - tsc_start (env k)) + cycles_from env (Suc k) N"
  by (simp add: cycles_from_def upt_conv_Cons)

text \<open>
  Once the passes from \<open>k\<close> on hold as many successes as the counter still lacks, the loop
  returns, and it returns right after the last success it needed. The induction is on the
  distance to a pass \<open>N\<close> before which these successes lie.
\<close>

lemma loop_returns:
  "unat n - unat i \<le> length (trials_from env k N) \<Longrightarrow> i \<le> n \<Longrightarrow>
     \<exists>k' s'. thread1_loop n env k i s = Some (k', s') \<and> k \<le> k' \<and>
       length (trials_from env k k') = unat n - unat i \<and>
       ts_total s' = accumulate (ts_total s) (trials_from env k k') \<and>
       tsc_sum s' = tsc_sum s + cycles_from env k k' \<and>
       out s' = out s @ events_from env k k' \<and>
       (k < k' \<longrightarrow> ipc_error (env (k' - 1)) = 0)"
proof (induction "N - k" arbitrary: k i s)
  case 0
  then have "trials_from env k N = []" by (simp add: trials_from_def)
  with 0 have "unat n \<le> unat i" by simp
  with 0 have "\<not> i < n" by (simp add: word_less_nat_alt)
  moreover from \<open>unat n \<le> unat i\<close> have "unat n - unat i = 0" by simp
  ultimately show ?case
    by (subst thread1_loop.simps) (simp add: trials_from_def cycles_from_def events_from_def accumulate_def)
next
  case (Suc d)
  then have kN: "k < N" by simp
  show ?case
  proof (cases "i < n")
    case False
    with Suc.prems have "unat n - unat i = 0" by (simp add: word_less_nat_alt)
    with False show ?thesis
      by (subst thread1_loop.simps) (simp add: trials_from_def cycles_from_def events_from_def accumulate_def)
  next
    case True
    let ?b = "thread1_body (env k) i s"
    have unf: "thread1_loop n env k i s = thread1_loop n env (Suc k) (fst ?b + 1) (snd ?b)"
      using True by (subst thread1_loop.simps) simp
    have d: "d = N - Suc k" using Suc.hyps(2) by simp
    have lt: "unat i < unat n" using True by (simp add: word_less_nat_alt)
    show ?thesis
    proof (cases "ipc_error (env k) = 0")
      case ok: True
      from counter_step [OF True]
      have le: "i + 1 \<le> n" and un: "unat (i + 1) = Suc (unat i)" by simp_all
      have nxt: "fst ?b + 1 = i + 1" using body_ok [OF ok] by simp
      have len: "unat n - unat (i + 1) \<le> length (trials_from env (Suc k) N)"
        using Suc.prems(1) kN ok un by (simp add: trials_from_Cons)
      from Suc.hyps(1) [OF d len le, of "snd ?b"]
      obtain k' s' where r: "thread1_loop n env (Suc k) (i + 1) (snd ?b) = Some (k', s')"
        and k: "Suc k \<le> k'"
        and l: "length (trials_from env (Suc k) k') = unat n - unat (i + 1)"
        and t: "ts_total s' = accumulate (ts_total (snd ?b)) (trials_from env (Suc k) k')"
        and c: "tsc_sum s' = tsc_sum (snd ?b) + cycles_from env (Suc k) k'"
        and o: "out s' = out (snd ?b) @ events_from env (Suc k) k'"
        and e: "Suc k < k' \<longrightarrow> ipc_error (env (k' - 1)) = 0"
        by blast
      have kk: "k < k'" using k by simp
      have l': "length (trials_from env k k') = unat n - unat i"
        using l un ok kk lt by (simp add: trials_from_Cons)
      have t': "ts_total s' = accumulate (ts_total s) (trials_from env k k')"
        using t body_ok [OF ok, of i s] ok kk by (simp add: trials_from_Cons accumulate_def)
      have c': "tsc_sum s' = tsc_sum s + cycles_from env k k'"
        using c kk by (simp add: cycles_from_Cons body_cycles add.assoc)
      have o': "out s' = out s @ events_from env k k'"
        using o kk by (simp add: events_from_Cons body_out)
      have e': "ipc_error (env (k' - 1)) = 0"
      proof (cases "Suc k < k'")
        case True
        with e show ?thesis by simp
      next
        case False
        with k have "k' = Suc k" by simp
        with ok show ?thesis by simp
      qed
      show ?thesis using unf nxt r k l' t' c' o' e' by auto
    next
      case err: False
      have nxt: "fst ?b + 1 = i" using body_fail [OF err, of i s] by simp
      have len: "unat n - unat i \<le> length (trials_from env (Suc k) N)"
        using Suc.prems(1) kN err by (simp add: trials_from_Cons)
      from Suc.hyps(1) [OF d len Suc.prems(2), of "snd ?b"]
      obtain k' s' where r: "thread1_loop n env (Suc k) i (snd ?b) = Some (k', s')"
        and k: "Suc k \<le> k'"
        and l: "length (trials_from env (Suc k) k') = unat n - unat i"
        and t: "ts_total s' = accumulate (ts_total (snd ?b)) (trials_from env (Suc k) k')"
        and c: "tsc_sum s' = tsc_sum (snd ?b) + cycles_from env (Suc k) k'"
        and o: "out s' = out (snd ?b) @ events_from env (Suc k) k'"
        and e: "Suc k < k' \<longrightarrow> ipc_error (env (k' - 1)) = 0"
        by blast
      have kk: "k < k'" using k by simp
      have l': "length (trials_from env k k') = unat n - unat i"
        using l err kk by (simp add: trials_from_Cons)
      have t': "ts_total s' = accumulate (ts_total s) (trials_from env k k')"
        using t body_fail [OF err, of i s] err kk by (simp add: trials_from_Cons)
      have c': "tsc_sum s' = tsc_sum s + cycles_from env k k'"
        using c kk by (simp add: cycles_from_Cons body_cycles add.assoc)
      have o': "out s' = out s @ events_from env k k'"
        using o kk by (simp add: events_from_Cons body_out)
      from l lt have "trials_from env (Suc k) k' \<noteq> []" by auto
      then have "Suc k < k'" using k by (cases "k' = Suc k") (auto simp: trials_from_def)
      with e have e': "ipc_error (env (k' - 1)) = 0" by simp
      show ?thesis using unf nxt r k l' t' c' o' e' by auto
    qed
  qed
qed

lemma trials_from_mono:
  "N \<le> M \<Longrightarrow> length (trials_from env 0 N) \<le> length (trials_from env 0 M)"
proof (induction M)
  case 0
  then show ?case by simp
next
  case (Suc M)
  then show ?case by (cases "N = Suc M") (auto simp: trials_from_def)
qed

text \<open>If a success follows every pass sooner or later, any number of successes is reached.\<close>

lemma enough_successes:
  assumes "\<forall>j. \<exists>k\<ge>j. ipc_error (env k) = 0"
  shows "\<exists>N. m \<le> length (trials_from env 0 N)"
proof (induction m)
  case 0
  show ?case by simp
next
  case (Suc m)
  then obtain N where N: "m \<le> length (trials_from env 0 N)" by blast
  from assms obtain k where k: "N \<le> k" "ipc_error (env k) = 0" by blast
  have "length (trials_from env 0 (Suc k)) = Suc (length (trials_from env 0 k))"
    using k(2) by (simp add: trials_from_def)
  with trials_from_mono [OF k(1), of env] N show ?case
    by (intro exI [of _ "Suc k"]) simp
qed

lemma loop_from_start:
  assumes "\<forall>j. \<exists>k\<ge>j. ipc_error (env k) = 0"
  shows "\<exists>k s'. thread1_loop n env 0 0 s = Some (k, s') \<and>
           length (trials_from env 0 k) = unat n \<and>
           ts_total s' = accumulate (ts_total s) (trials_from env 0 k) \<and>
           tsc_sum s' = tsc_sum s + cycles_from env 0 k \<and>
           out s' = out s @ events_from env 0 k \<and>
           (0 < k \<longrightarrow> ipc_error (env (k - 1)) = 0)"
proof -
  from enough_successes [OF assms, of "unat n"]
  obtain N where "unat n - unat (0 :: c_unsigned) \<le> length (trials_from env 0 N)" by auto
  from loop_returns [OF this, of s] show ?thesis by auto
qed

lemma flaky_env_recovers: "\<forall>j. \<exists>k\<ge>j. ipc_error (flaky_env k) = 0"
proof
  fix j
  have "j \<le> j + 3 \<and> ipc_error (flaky_env (j + 3)) = 0"
    by (simp add: flaky_env_def ok_attempt_def)
  then show "\<exists>k\<ge>j. ipc_error (flaky_env k) = 0" by blast
qed

text \<open>
  C3. Whenever the transport's outcomes are such that a success follows every attempt after
  finitely many errors, the loop of the initiator returns, and at that moment exactly
  \<open>BENCH_SIZE\<close> = 100000 of the passes made were successes, the last pass being one of them;
  \<open>ts_total\<close> is the success branch applied to exactly these successful attempts, however
  many failed attempts lie between them. The same holds for every bound \<open>n\<close> in place of
  \<open>BENCH_SIZE\<close>.
\<close>

theorem C3_retry_completeness:
  assumes "\<forall>j. \<exists>k\<ge>j. ipc_error (env k) = 0"
  shows "(\<exists>k s. thread1_loop n env 0 0 (thread1_init m) = Some (k, s) \<and>
            length (trials_from env 0 k) = unat n \<and>
            ts_total s = accumulate \<lparr>tv_sec = 0, tv_nsec = 0\<rparr> (trials_from env 0 k) \<and>
            (0 < k \<longrightarrow> ipc_error (env (k - 1)) = 0)) \<and>
         (\<exists>k s. thread1_loop BENCH_SIZE env 0 0 (thread1_init m) = Some (k, s) \<and>
            length (trials_from env 0 k) = 100000 \<and>
            ts_total s = accumulate \<lparr>tv_sec = 0, tv_nsec = 0\<rparr> (trials_from env 0 k) \<and>
            thread1_fn env m = Some (out s @ report s))"
proof
  from loop_from_start [OF assms, of n "thread1_init m"]
  show "\<exists>k s. thread1_loop n env 0 0 (thread1_init m) = Some (k, s) \<and>
            length (trials_from env 0 k) = unat n \<and>
            ts_total s = accumulate \<lparr>tv_sec = 0, tv_nsec = 0\<rparr> (trials_from env 0 k) \<and>
            (0 < k \<longrightarrow> ipc_error (env (k - 1)) = 0)"
    by (auto simp: thread1_init_def)
next
  from loop_from_start [OF assms, of BENCH_SIZE "thread1_init m"]
  obtain k s where r: "thread1_loop BENCH_SIZE env 0 0 (thread1_init m) = Some (k, s)"
    and l: "length (trials_from env 0 k) = unat BENCH_SIZE"
    and t: "ts_total s = accumulate (ts_total (thread1_init m)) (trials_from env 0 k)"
    by blast
  have "thread1_fn env m = Some (out s @ report s)"
    using r by (simp add: thread1_fn_def)
  moreover have "length (trials_from env 0 k) = 100000"
    using l by (simp add: BENCH_SIZE_def)
  moreover have "ts_total s = accumulate \<lparr>tv_sec = 0, tv_nsec = 0\<rparr> (trials_from env 0 k)"
    using t by (simp add: thread1_init_def)
  ultimately show "\<exists>k s. thread1_loop BENCH_SIZE env 0 0 (thread1_init m) = Some (k, s) \<and>
            length (trials_from env 0 k) = 100000 \<and>
            ts_total s = accumulate \<lparr>tv_sec = 0, tv_nsec = 0\<rparr> (trials_from env 0 k) \<and>
            thread1_fn env m = Some (out s @ report s)"
    using r by blast
qed

theorem C3_witness:
  "(\<forall>j. \<exists>k\<ge>j. ipc_error (flaky_env k) = 0) \<and>
   (\<exists>k s. thread1_loop 2 flaky_env 0 0 (thread1_init zero_mr) = Some (k, s) \<and>
      k = 4 \<and> trials_from flaky_env 0 k = [flaky_env 1, flaky_env 3] \<and>
      ts_total s = \<lparr>tv_sec = 0, tv_nsec = 600\<rparr>)"
proof -
  have run: "\<exists>s. thread1_loop 2 flaky_env 0 0 (thread1_init zero_mr) = Some (4, s)"
    by (simp add: thread1_loop.simps thread1_body_def flaky_env_def ok_attempt_def
        failed_attempt_def thread1_init_def add_elapsed_def Let_def word_sless_alt)
  have tr: "trials_from flaky_env 0 4 = [flaky_env 1, flaky_env 3]"
    by (simp add: trials_from_def flaky_env_def upt_rec ok_attempt_def failed_attempt_def)
  have acc: "accumulate \<lparr>tv_sec = 0, tv_nsec = 0\<rparr> [flaky_env 1, flaky_env 3] =
      \<lparr>tv_sec = 0, tv_nsec = 600\<rparr>"
    by (simp add: accumulate_def flaky_env_def ok_attempt_def add_elapsed_def word_sless_alt)
  from C3_retry_completeness [OF flaky_env_recovers, of 2 zero_mr]
  obtain k s where "thread1_loop 2 flaky_env 0 0 (thread1_init zero_mr) = Some (k, s)"
    and "ts_total s = accumulate \<lparr>tv_sec = 0, tv_nsec = 0\<rparr> (trials_from flaky_env 0 k)"
    by blast
  with run tr acc flaky_env_recovers show ?thesis by auto
qed

text \<open>
  C9. The loop counter is a 32-bit unsigned integer. A transport error in the pass that
  starts with the counter at 0 leaves the body with the counter at \<open>2 ^ 32 - 1\<close>, and the
  increment of the loop head brings it back to 0, so the loop goes on from the next attempt
  with the counter it had; after an error at any counter value the increment restores that
  value. With the first attempt failing, the loop still returns with exactly as many
  successes as its bound asks for (\<open>BENCH_SIZE\<close> in the program), none of them the first
  attempt.
\<close>

theorem C9_counter_wraps_on_first_error:
  assumes "ipc_error (env 0) \<noteq> 0" and "\<forall>j. \<exists>k\<ge>j. ipc_error (env k) = 0"
  shows "fst (thread1_body (env 0) 0 s) = 0xFFFFFFFF \<and>
         unat (fst (thread1_body (env 0) 0 s)) = 2 ^ 32 - 1 \<and>
         fst (thread1_body (env 0) 0 s) + 1 = 0 \<and>
         (\<forall>a i. ipc_error a \<noteq> 0 \<longrightarrow> fst (thread1_body a i s) + 1 = i) \<and>
         (0 < n \<longrightarrow> thread1_loop n env 0 0 s =
                      thread1_loop n env 1 0 (snd (thread1_body (env 0) 0 s))) \<and>
         (\<exists>k s'. thread1_loop n env 0 0 s = Some (k, s') \<and>
            length (trials_from env 0 k) = unat n \<and>
            length (trials_from env 1 k) = unat n)"
proof -
  have w: "fst (thread1_body (env 0) 0 s) = 0xFFFFFFFF"
    using body_fail [OF assms(1), of 0 s] by simp
  have restore: "\<forall>a i. ipc_error a \<noteq> 0 \<longrightarrow> fst (thread1_body a i s) + 1 = i"
    using body_fail by simp
  have unf: "0 < n \<longrightarrow> thread1_loop n env 0 0 s =
                      thread1_loop n env 1 0 (snd (thread1_body (env 0) 0 s))"
    using restore assms(1) by (subst thread1_loop.simps) simp
  from loop_from_start [OF assms(2), of n s]
  obtain k s' where r: "thread1_loop n env 0 0 s = Some (k, s')"
    and l: "length (trials_from env 0 k) = unat n" by blast
  have "length (trials_from env 1 k) = unat n"
  proof (cases "k = 0")
    case True
    with l show ?thesis by (simp add: trials_from_def)
  next
    case False
    then have "0 < k" by simp
    from trials_from_Cons [OF this, of env] assms(1) l show ?thesis by simp
  qed
  with r l w restore unf show ?thesis by auto
qed

theorem C9_witness:
  "ipc_error (flaky_env 0) \<noteq> 0 \<and> (\<forall>j. \<exists>k\<ge>j. ipc_error (flaky_env k) = 0) \<and>
   fst (thread1_body (flaky_env 0) 0 sample_state) = 4294967295 \<and>
   fst (thread1_body (flaky_env 0) 0 sample_state) + 1 = 0 \<and>
   (\<exists>k s'. thread1_loop 2 flaky_env 0 0 sample_state = Some (k, s') \<and>
      length (trials_from flaky_env 0 k) = unat (2 :: c_unsigned))"
proof -
  have e: "ipc_error (flaky_env 0) \<noteq> 0" by (simp add: flaky_env_def failed_attempt_def)
  from C9_counter_wraps_on_first_error [OF e flaky_env_recovers, of sample_state 2]
  have a: "fst (thread1_body (flaky_env 0) 0 sample_state) = 4294967295"
    and b: "fst (thread1_body (flaky_env 0) 0 sample_state) + 1 = 0"
    and c: "\<exists>k s'. thread1_loop 2 flaky_env 0 0 sample_state = Some (k, s') \<and>
      length (trials_from flaky_env 0 k) = unat (2 :: c_unsigned)"
    by blast+
  from e flaky_env_recovers a b c show ?thesis by blast
qed

section \<open>The report\<close>

text \<open>The run on \<open>slow_first_env\<close> ends with a total of (1 s, 500000000 ns).\<close>

lemma slow_first_env_ok: "ipc_error (slow_first_env k) = 0"
  by (simp add: slow_first_env_def)

lemma slow_first_env_trials: "trials_from slow_first_env 0 k = map slow_first_env [0..<k]"
  by (simp add: trials_from_def slow_first_env_ok)

lemma slow_first_env_tail:
  "accumulate t (map slow_first_env [1..<Suc n]) =
     \<lparr>tv_sec = tv_sec t, tv_nsec = tv_nsec t + 5000 * of_nat n\<rparr>"
proof (induction n)
  case 0
  show ?case by (simp add: accumulate_def)
next
  case (Suc n)
  have split: "[1..<Suc (Suc n)] = [1..<Suc n] @ [Suc n]" by simp
  have "accumulate t (map slow_first_env [1..<Suc (Suc n)]) =
      add_elapsed (tp (slow_first_env (Suc n))) (reply_mr (slow_first_env (Suc n)))
        (accumulate t (map slow_first_env [1..<Suc n]))"
    unfolding split accumulate_def by (simp only: map_append foldl_append list.map foldl.simps)
  also have "\<dots> = add_elapsed (tp (slow_first_env (Suc n))) (reply_mr (slow_first_env (Suc n)))
        \<lparr>tv_sec = tv_sec t, tv_nsec = tv_nsec t + 5000 * of_nat n\<rparr>"
    by (simp only: Suc.IH)
  also have "\<dots> = \<lparr>tv_sec = tv_sec t, tv_nsec = tv_nsec t + 5000 * of_nat (Suc n)\<rparr>"
    by (simp add: slow_first_env_def add_elapsed_def word_sless_alt algebra_simps)
  finally show ?case .
qed

lemma slow_first_env_total:
  "accumulate \<lparr>tv_sec = 0, tv_nsec = 0\<rparr> (map slow_first_env [0..<Suc n]) =
     \<lparr>tv_sec = 1, tv_nsec = 5000 + 5000 * of_nat n\<rparr>"
proof -
  have split: "[0..<Suc n] = 0 # [1..<Suc n]" by (simp add: upt_conv_Cons)
  have "accumulate \<lparr>tv_sec = 0, tv_nsec = 0\<rparr> (map slow_first_env [0..<Suc n]) =
      accumulate (add_elapsed (tp (slow_first_env 0)) (reply_mr (slow_first_env 0))
          \<lparr>tv_sec = 0, tv_nsec = 0\<rparr>) (map slow_first_env [1..<Suc n])"
    unfolding split accumulate_def by (simp only: list.map foldl.simps)
  also have "\<dots> = \<lparr>tv_sec = 1, tv_nsec = 5000 + 5000 * of_nat n\<rparr>"
    unfolding slow_first_env_tail
    by (simp add: slow_first_env_def add_elapsed_def word_sless_alt)
  finally show ?thesis .
qed

lemma slow_first_env_recovers: "\<forall>j. \<exists>k\<ge>j. ipc_error (slow_first_env k) = 0"
  using slow_first_env_ok by blast

text \<open>
  C2. The claim: for every accumulated total, the average printed is the whole duration in
  nanoseconds divided by \<open>BENCH_SIZE\<close>, shown as seconds and the nanoseconds left. The code
  divides the two fields one by one, and the term \<open>seconds_as_ns % 1000000000\<close> that should
  carry the seconds into the nanoseconds is always 0. On \<open>slow_first_env\<close> the run ends with
  the total (1 s, 500000000 ns) and prints an average of 0.000005000 s, while 1.5 s over
  100000 calls is 0.000015000 s.
\<close>

theorem C2_average_drops_seconds:
  "(\<exists>evs c. thread1_fn slow_first_env zero_mr =
      Some (evs @ [Stdout_total_time 1 500000000, Stdout_avg_time 0 5000, Stdout_avg_cycles c])) \<and>
   report \<lparr>ts_total = \<lparr>tv_sec = 1, tv_nsec = 500000000\<rparr>, tsc_sum = 700000,
       mr = zero_mr, out = []\<rparr> =
     [Stdout_total_time 1 500000000, Stdout_avg_time 0 5000, Stdout_avg_cycles 7] \<and>
   spec_average 1 500000000 (uint BENCH_SIZE) = (0, 15000)"
proof (intro conjI)
  from loop_from_start [OF slow_first_env_recovers, of BENCH_SIZE "thread1_init zero_mr"]
  obtain k s where
    r: "thread1_loop BENCH_SIZE slow_first_env 0 0 (thread1_init zero_mr) = Some (k, s)"
    and l: "length (trials_from slow_first_env 0 k) = unat BENCH_SIZE"
    and t: "ts_total s =
      accumulate (ts_total (thread1_init zero_mr)) (trials_from slow_first_env 0 k)"
    by blast
  from l have "k = Suc 99999" by (simp add: slow_first_env_trials BENCH_SIZE_def)
  with t have "ts_total s =
      accumulate \<lparr>tv_sec = 0, tv_nsec = 0\<rparr> (map slow_first_env [0..<Suc 99999])"
    by (simp only: slow_first_env_trials thread1_init_def thread1_state.simps)
  then have tot: "ts_total s = \<lparr>tv_sec = 1, tv_nsec = 500000000\<rparr>"
    unfolding slow_first_env_total by simp
  have "report s = [Stdout_total_time 1 500000000, Stdout_avg_time 0 5000,
      Stdout_avg_cycles (tsc_sum s div ucast BENCH_SIZE)]"
    by (simp add: report_def tot BENCH_SIZE_def long_div_def long_mod_def
        signed_divide_int_def signed_modulo_int_def)
  with r have "thread1_fn slow_first_env zero_mr =
      Some (out s @ [Stdout_total_time 1 500000000, Stdout_avg_time 0 5000,
        Stdout_avg_cycles (tsc_sum s div ucast BENCH_SIZE)])"
    by (simp add: thread1_fn_def)
  then show "\<exists>evs c. thread1_fn slow_first_env zero_mr =
      Some (evs @ [Stdout_total_time 1 500000000, Stdout_avg_time 0 5000, Stdout_avg_cycles c])"
    by blast
next
  show "report \<lparr>ts_total = \<lparr>tv_sec = 1, tv_nsec = 500000000\<rparr>, tsc_sum = 700000,
       mr = zero_mr, out = []\<rparr> =
     [Stdout_total_time 1 500000000, Stdout_avg_time 0 5000, Stdout_avg_cycles 7]"
    by (simp add: report_def BENCH_SIZE_def long_div_def long_mod_def
        signed_divide_int_def signed_modulo_int_def)
next
  show "spec_average 1 500000000 (uint BENCH_SIZE) = (0, 15000)"
    by (simp add: spec_average_def BENCH_SIZE_def)
qed

section \<open>The responder\<close>

text \<open>One more wake-up is one more pass through the body, made on the state reached so far.\<close>

lemma thread2_loop_Suc:
  "thread2_loop (Suc n) env k s =
     (case thread2_loop n env k s of
        Returned_NULL \<Rightarrow> Returned_NULL
      | Still_looping s' \<Rightarrow> Still_looping (thread2_body (env (k + n)) s'))"
  by (induction n arbitrary: k s) (simp_all split: thread2_result.split)

lemma thread2_loop_never_returns: "\<exists>s'. thread2_loop n env k s = Still_looping s'"
  by (induction n arbitrary: k s) simp_all

text \<open>
  C7. The responder starts with a plain wait without timeout. Between wake-up number \<open>n\<close> and
  the next one it does exactly this: when the error code of the wake-up is not zero it
  prints the error and issues a plain wait without timeout, with no reply and the message
  registers as they were; when the error code is zero it stores the seconds and the
  nanoseconds of the clock in message registers 0 and 1 and issues one reply-and-wait
  without timeout whose tag announces exactly two words. However many wake-ups it is
  given, the loop has not returned.
\<close>

theorem C7_responder_wakeup:
  "thread2_fn 0 env m = Still_looping \<lparr>t2_mr = m, t2_out = [L4_ipc_wait L4_IPC_NEVER]\<rparr> \<and>
   (\<exists>s s'. thread2_fn n env m = Still_looping s \<and> thread2_fn (Suc n) env m = Still_looping s' \<and>
      (wake_error (env n) \<noteq> 0 \<longrightarrow>
         t2_out s' = t2_out s @
           [Stderr_thread2_ipc_error (wake_error (env n)), L4_ipc_wait L4_IPC_NEVER] \<and>
         t2_mr s' = t2_mr s) \<and>
      (wake_error (env n) = 0 \<longrightarrow>
         t2_mr s' = (t2_mr s)(0 := tv_sec (wake_clock (env n)), 1 := tv_nsec (wake_clock (env n))) \<and>
         t2_out s' = t2_out s @ [L4_ipc_reply_and_wait (l4_msgtag 0 2 0 0) L4_IPC_NEVER])) \<and>
   tag_words (l4_msgtag 0 2 0 0) = 2 \<and>
   (\<forall>fuel. thread2_fn fuel env m \<noteq> Returned_NULL)"
proof (intro conjI)
  show "thread2_fn 0 env m = Still_looping \<lparr>t2_mr = m, t2_out = [L4_ipc_wait L4_IPC_NEVER]\<rparr>"
    by (simp add: thread2_fn_def)
next
  let ?s0 = "\<lparr>t2_mr = m, t2_out = [L4_ipc_wait L4_IPC_NEVER]\<rparr>"
  from thread2_loop_never_returns [of n env 0 ?s0]
  obtain s where s: "thread2_loop n env 0 ?s0 = Still_looping s" by blast
  then have s': "thread2_loop (Suc n) env 0 ?s0 = Still_looping (thread2_body (env n) s)"
    by (simp only: thread2_loop_Suc) simp
  have "(wake_error (env n) \<noteq> 0 \<longrightarrow>
         t2_out (thread2_body (env n) s) = t2_out s @
           [Stderr_thread2_ipc_error (wake_error (env n)), L4_ipc_wait L4_IPC_NEVER] \<and>
         t2_mr (thread2_body (env n) s) = t2_mr s) \<and>
      (wake_error (env n) = 0 \<longrightarrow>
         t2_mr (thread2_body (env n) s) =
           (t2_mr s)(0 := tv_sec (wake_clock (env n)), 1 := tv_nsec (wake_clock (env n))) \<and>
         t2_out (thread2_body (env n) s) =
           t2_out s @ [L4_ipc_reply_and_wait (l4_msgtag 0 2 0 0) L4_IPC_NEVER])"
    by (simp add: thread2_body_def)
  with s s' show "\<exists>s s'. thread2_fn n env m = Still_looping s \<and>
      thread2_fn (Suc n) env m = Still_looping s' \<and>
      (wake_error (env n) \<noteq> 0 \<longrightarrow>
         t2_out s' = t2_out s @
           [Stderr_thread2_ipc_error (wake_error (env n)), L4_ipc_wait L4_IPC_NEVER] \<and>
         t2_mr s' = t2_mr s) \<and>
      (wake_error (env n) = 0 \<longrightarrow>
         t2_mr s' = (t2_mr s)(0 := tv_sec (wake_clock (env n)), 1 := tv_nsec (wake_clock (env n))) \<and>
         t2_out s' = t2_out s @ [L4_ipc_reply_and_wait (l4_msgtag 0 2 0 0) L4_IPC_NEVER])"
    unfolding thread2_fn_def by blast
next
  show "tag_words (l4_msgtag 0 2 0 0) = 2" by (simp add: l4_msgtag_def)
next
  show "\<forall>fuel. thread2_fn fuel env m \<noteq> Returned_NULL"
  proof
    fix fuel
    from thread2_loop_never_returns [of fuel env 0 "\<lparr>t2_mr = m, t2_out = [L4_ipc_wait L4_IPC_NEVER]\<rparr>"]
    show "thread2_fn fuel env m \<noteq> Returned_NULL" by (auto simp: thread2_fn_def)
  qed
qed

theorem C7_witness:
  "wake_error (mixed_wakeups 0) \<noteq> 0 \<and> wake_error (mixed_wakeups (Suc 0)) = 0 \<and>
   (\<exists>s. thread2_fn (Suc (Suc 0)) mixed_wakeups zero_mr = Still_looping s \<and>
      t2_out s = [L4_ipc_wait L4_IPC_NEVER, Stderr_thread2_ipc_error 3, L4_ipc_wait L4_IPC_NEVER,
                  L4_ipc_reply_and_wait (l4_msgtag 0 2 0 0) L4_IPC_NEVER] \<and>
      t2_mr s 0 = 9 \<and> t2_mr s 1 = 222 \<and> t2_mr s 2 = 0)"
proof -
  have e0: "wake_error (mixed_wakeups 0) \<noteq> 0"
    by (simp add: mixed_wakeups_def failed_wakeup_def)
  have e1: "wake_error (mixed_wakeups (Suc 0)) = 0"
    by (simp add: mixed_wakeups_def ok_wakeup_def)
  from C7_responder_wakeup [of mixed_wakeups zero_mr 0] e0
  obtain s1 where a: "thread2_fn (Suc 0) mixed_wakeups zero_mr = Still_looping s1"
    and o1: "t2_out s1 = [L4_ipc_wait L4_IPC_NEVER,
      Stderr_thread2_ipc_error (wake_error (mixed_wakeups 0)), L4_ipc_wait L4_IPC_NEVER]"
    and m1: "t2_mr s1 = zero_mr"
    by auto
  from C7_responder_wakeup [of mixed_wakeups zero_mr "Suc 0"] e1 a
  obtain s2 where b: "thread2_fn (Suc (Suc 0)) mixed_wakeups zero_mr = Still_looping s2"
    and o2: "t2_out s2 = t2_out s1 @ [L4_ipc_reply_and_wait (l4_msgtag 0 2 0 0) L4_IPC_NEVER]"
    and m2: "t2_mr s2 = (t2_mr s1)(0 := tv_sec (wake_clock (mixed_wakeups (Suc 0))),
      1 := tv_nsec (wake_clock (mixed_wakeups (Suc 0))))"
    by auto
  have "t2_out s2 = [L4_ipc_wait L4_IPC_NEVER, Stderr_thread2_ipc_error 3,
      L4_ipc_wait L4_IPC_NEVER, L4_ipc_reply_and_wait (l4_msgtag 0 2 0 0) L4_IPC_NEVER]"
    using o1 o2 by (simp add: mixed_wakeups_def failed_wakeup_def)
  moreover have "t2_mr s2 0 = 9 \<and> t2_mr s2 1 = 222 \<and> t2_mr s2 2 = 0"
    using m1 m2 by (simp add: mixed_wakeups_def ok_wakeup_def zero_mr_def)
  ultimately show ?thesis using e0 e1 b by blast
qed

section \<open>The bootstrap\<close>

text \<open>
  C8. When the responder was created and the scheduler refuses the placement, \<open>main\<close> prints
  the error and goes on to the initiator's loop. Provided the transport lets every trial
  succeed in the end, the loop returns after exactly 100000 successful trials, and \<open>main\<close>
  returns 0 having produced, in this order: the placement request, the error line, the
  migration line, the calls and error lines of the passes made, and the three result lines
  computed from the totals of those trials. When \<open>pthread_create\<close> fails, \<open>main\<close> prints the
  failure and returns 1 without running anything else.
\<close>

theorem C8_placement_failure_not_fatal:
  "(pthread_create_ret e = 0 \<and> run_thread_error e \<noteq> 0 \<and>
    (\<forall>j. \<exists>k\<ge>j. ipc_error (thread1_env e k) = 0) \<longrightarrow>
      (\<exists>k s. thread1_loop BENCH_SIZE (thread1_env e) 0 0 (thread1_init (utcb_mr0 e)) = Some (k, s) \<and>
         length (trials_from (thread1_env e) 0 k) = 100000 \<and>
         ts_total s = accumulate \<lparr>tv_sec = 0, tv_nsec = 0\<rparr> (trials_from (thread1_env e) 0 k) \<and>
         tsc_sum s = cycles_from (thread1_env e) 0 k \<and>
         main e = Some ([Sched_run_thread (t2_handle e) 20 1,
                         Stdout_error_migrating (t2_handle e) 1,
                         Stdout_migrated (t2_handle e) 1] @
                        events_from (thread1_env e) 0 k @
                        [Stdout_total_time (tv_sec (ts_total s)) (tv_nsec (ts_total s)),
                         Stdout_avg_time
                           (long_div (long_div (tv_sec (ts_total s) * 1000000000) 1000000000) 100000)
                           (long_div (tv_nsec (ts_total s) +
                              long_mod (tv_sec (ts_total s) * 1000000000) 1000000000) 100000),
                         Stdout_avg_cycles (tsc_sum s div 100000)], 0))) \<and>
   (pthread_create_ret e \<noteq> 0 \<longrightarrow> main e = Some ([Stderr_thread_creation_failed], 1))"
proof (intro conjI impI)
  assume h: "pthread_create_ret e = 0 \<and> run_thread_error e \<noteq> 0 \<and>
    (\<forall>j. \<exists>k\<ge>j. ipc_error (thread1_env e k) = 0)"
  then have "\<forall>j. \<exists>k\<ge>j. ipc_error (thread1_env e k) = 0" by simp
  from loop_from_start [OF this, of BENCH_SIZE "thread1_init (utcb_mr0 e)"]
  obtain k s where
    r: "thread1_loop BENCH_SIZE (thread1_env e) 0 0 (thread1_init (utcb_mr0 e)) = Some (k, s)"
    and l: "length (trials_from (thread1_env e) 0 k) = unat BENCH_SIZE"
    and t: "ts_total s =
      accumulate (ts_total (thread1_init (utcb_mr0 e))) (trials_from (thread1_env e) 0 k)"
    and c: "tsc_sum s = tsc_sum (thread1_init (utcb_mr0 e)) + cycles_from (thread1_env e) 0 k"
    and o: "out s = out (thread1_init (utcb_mr0 e)) @ events_from (thread1_env e) 0 k"
    by blast
  have l': "length (trials_from (thread1_env e) 0 k) = 100000"
    using l by (simp add: BENCH_SIZE_def)
  have t': "ts_total s = accumulate \<lparr>tv_sec = 0, tv_nsec = 0\<rparr> (trials_from (thread1_env e) 0 k)"
    using t by (simp add: thread1_init_def)
  have c': "tsc_sum s = cycles_from (thread1_env e) 0 k"
    using c by (simp add: thread1_init_def)
  have o': "out s = events_from (thread1_env e) 0 k"
    using o by (simp add: thread1_init_def)
  have "main e = Some ([Sched_run_thread (t2_handle e) 20 1,
                         Stdout_error_migrating (t2_handle e) 1,
                         Stdout_migrated (t2_handle e) 1] @
                        events_from (thread1_env e) 0 k @
                        [Stdout_total_time (tv_sec (ts_total s)) (tv_nsec (ts_total s)),
                         Stdout_avg_time
                           (long_div (long_div (tv_sec (ts_total s) * 1000000000) 1000000000) 100000)
                           (long_div (tv_nsec (ts_total s) +
                              long_mod (tv_sec (ts_total s) * 1000000000) 1000000000) 100000),
                         Stdout_avg_cycles (tsc_sum s div 100000)], 0)"
    using h r o'
    by (simp add: main_def main_start_def thread1_fn_def report_def BENCH_SIZE_def Let_def)
  with r l' t' c' show "\<exists>k s.
         thread1_loop BENCH_SIZE (thread1_env e) 0 0 (thread1_init (utcb_mr0 e)) = Some (k, s) \<and>
         length (trials_from (thread1_env e) 0 k) = 100000 \<and>
         ts_total s = accumulate \<lparr>tv_sec = 0, tv_nsec = 0\<rparr> (trials_from (thread1_env e) 0 k) \<and>
         tsc_sum s = cycles_from (thread1_env e) 0 k \<and>
         main e = Some ([Sched_run_thread (t2_handle e) 20 1,
                         Stdout_error_migrating (t2_handle e) 1,
                         Stdout_migrated (t2_handle e) 1] @
                        events_from (thread1_env e) 0 k @
                        [Stdout_total_time (tv_sec (ts_total s)) (tv_nsec (ts_total s)),
                         Stdout_avg_time
                           (long_div (long_div (tv_sec (ts_total s) * 1000000000) 1000000000) 100000)
                           (long_div (tv_nsec (ts_total s) +
                              long_mod (tv_sec (ts_total s) * 1000000000) 1000000000) 100000),
                         Stdout_avg_cycles (tsc_sum s div 100000)], 0)"
    by blast
next
  assume "pthread_create_ret e \<noteq> 0"
  then show "main e = Some ([Stderr_thread_creation_failed], 1)"
    by (simp add: main_def main_start_def)
qed

text \<open>Every success of \<open>flaky_env\<close> is \<open>ok_attempt\<close>, which adds (0 s, 300 ns).\<close>

lemma flaky_env_trials:
  "trials_from flaky_env 0 k = replicate (length (trials_from flaky_env 0 k)) ok_attempt"
proof -
  have "\<forall>a\<in>set (trials_from flaky_env 0 k). a = ok_attempt"
    by (auto simp: trials_from_def flaky_env_def failed_attempt_def)
  from replicate_length_same [OF this] show ?thesis by simp
qed

lemma accumulate_ok_attempts:
  "accumulate t (replicate n ok_attempt) =
     \<lparr>tv_sec = tv_sec t, tv_nsec = tv_nsec t + 300 * of_nat n\<rparr>"
proof (induction n arbitrary: t)
  case 0
  show ?case by (simp add: accumulate_def)
next
  case (Suc n)
  have "accumulate t (replicate (Suc n) ok_attempt) =
      accumulate (add_elapsed (tp ok_attempt) (reply_mr ok_attempt) t) (replicate n ok_attempt)"
    by (simp add: accumulate_def)
  also have "\<dots> = \<lparr>tv_sec = tv_sec t, tv_nsec = tv_nsec t + 300 * of_nat (Suc n)\<rparr>"
    unfolding Suc.IH
    by (simp add: ok_attempt_def add_elapsed_def word_sless_alt algebra_simps)
  finally show ?case .
qed

lemma ok_trials_total:
  assumes "length (trials_from flaky_env 0 k) = 100000"
    and "ts_total s = accumulate \<lparr>tv_sec = 0, tv_nsec = 0\<rparr> (trials_from flaky_env 0 k)"
  shows "ts_total s = \<lparr>tv_sec = 0, tv_nsec = 30000000\<rparr>"
proof -
  have "ts_total s = accumulate \<lparr>tv_sec = 0, tv_nsec = 0\<rparr>
      (replicate (length (trials_from flaky_env 0 k)) ok_attempt)"
    using assms(2) flaky_env_trials [of k] by simp
  then have "ts_total s = \<lparr>tv_sec = 0, tv_nsec = 300 * of_nat (length (trials_from flaky_env 0 k))\<rparr>"
    unfolding accumulate_ok_attempts by simp
  then show ?thesis unfolding assms(1) by simp
qed

theorem C8_witness:
  "pthread_create_ret unplaced_boot = 0 \<and> run_thread_error unplaced_boot \<noteq> 0 \<and>
   (\<forall>j. \<exists>k\<ge>j. ipc_error (thread1_env unplaced_boot k) = 0) \<and>
   pthread_create_ret threadless_boot \<noteq> 0 \<and>
   (\<exists>k a b c. length (trials_from flaky_env 0 k) = 100000 \<and>
      main unplaced_boot =
        Some ([Sched_run_thread 4096 20 1, Stdout_error_migrating 4096 1, Stdout_migrated 4096 1] @
              events_from flaky_env 0 k @
              [Stdout_total_time 0 30000000, Stdout_avg_time a b, Stdout_avg_cycles c], 0)) \<and>
   main threadless_boot = Some ([Stderr_thread_creation_failed], 1)"
proof -
  have a: "pthread_create_ret unplaced_boot = 0 \<and> run_thread_error unplaced_boot \<noteq> 0 \<and>
      (\<forall>j. \<exists>k\<ge>j. ipc_error (thread1_env unplaced_boot k) = 0)"
    using flaky_env_recovers by (simp add: unplaced_boot_def)
  have b: "pthread_create_ret threadless_boot \<noteq> 0"
    by (simp add: threadless_boot_def unplaced_boot_def)
  have h: "t2_handle unplaced_boot = 4096" "thread1_env unplaced_boot = flaky_env"
    by (simp_all add: unplaced_boot_def)
  note run = C8_placement_failure_not_fatal [of unplaced_boot, THEN conjunct1, THEN mp, OF a,
      unfolded h]
  from run obtain k and s :: thread1_state
    where l: "length (trials_from flaky_env 0 k) = 100000"
    and t: "ts_total s = accumulate \<lparr>tv_sec = 0, tv_nsec = 0\<rparr> (trials_from flaky_env 0 k)"
    and m: "main unplaced_boot =
        Some ([Sched_run_thread 4096 20 1, Stdout_error_migrating 4096 1, Stdout_migrated 4096 1] @
              events_from flaky_env 0 k @
              [Stdout_total_time (tv_sec (ts_total s)) (tv_nsec (ts_total s)),
               Stdout_avg_time
                 (long_div (long_div (tv_sec (ts_total s) * 1000000000) 1000000000) 100000)
                 (long_div (tv_nsec (ts_total s) +
                    long_mod (tv_sec (ts_total s) * 1000000000) 1000000000) 100000),
               Stdout_avg_cycles (tsc_sum s div 100000)], 0)"
    by blast
  from ok_trials_total [OF l t] have tot: "ts_total s = \<lparr>tv_sec = 0, tv_nsec = 30000000\<rparr>" .
  note stop = C8_placement_failure_not_fatal [of threadless_boot, THEN conjunct2, THEN mp, OF b]
  have "main unplaced_boot =
        Some ([Sched_run_thread 4096 20 1, Stdout_error_migrating 4096 1, Stdout_migrated 4096 1] @
              events_from flaky_env 0 k @
              [Stdout_total_time 0 30000000,
               Stdout_avg_time
                 (long_div (long_div (tv_sec (ts_total s) * 1000000000) 1000000000) 100000)
                 (long_div (tv_nsec (ts_total s) +
                    long_mod (tv_sec (ts_total s) * 1000000000) 1000000000) 100000),
               Stdout_avg_cycles (tsc_sum s div 100000)], 0)"
    using m tot by simp
  with l have "\<exists>k a b c. length (trials_from flaky_env 0 k) = 100000 \<and>
      main unplaced_boot =
        Some ([Sched_run_thread 4096 20 1, Stdout_error_migrating 4096 1, Stdout_migrated 4096 1] @
              events_from flaky_env 0 k @
              [Stdout_total_time 0 30000000, Stdout_avg_time a b, Stdout_avg_cycles c], 0)"
    by blast
  with a b stop show ?thesis by blast
qed

text \<open>
  C10. Once the responder is created, the line "Migrated Thread ... -> CPU ..." is the last
  thing \<open>main\<close> prints before it enters the initiator's loop, whatever the scheduler
  answered: after a refused placement it follows the error line, and the events up to that
  point differ from those of an accepted placement only by the error line. The line alone
  does not tell whether the responder runs on core 1.
\<close>

theorem C10_migrated_line_unconditional:
  "pthread_create_ret e = 0 \<longrightarrow>
     (\<exists>pre. fst (main_start e) = pre @ [Stdout_migrated (t2_handle e) 1]) \<and>
     snd (main_start e) = None \<and>
     (run_thread_error e \<noteq> 0 \<longrightarrow>
        fst (main_start e) = [Sched_run_thread (t2_handle e) 20 1,
                              Stdout_error_migrating (t2_handle e) 1,
                              Stdout_migrated (t2_handle e) 1]) \<and>
     (run_thread_error e = 0 \<longrightarrow>
        fst (main_start e) = [Sched_run_thread (t2_handle e) 20 1,
                              Stdout_migrated (t2_handle e) 1])"
  by (simp add: main_start_def)

theorem C10_witness:
  "pthread_create_ret unplaced_boot = 0 \<and> run_thread_error unplaced_boot \<noteq> 0 \<and>
   pthread_create_ret placed_boot = 0 \<and> run_thread_error placed_boot = 0 \<and>
   fst (main_start unplaced_boot) =
     [Sched_run_thread 4096 20 1, Stdout_error_migrating 4096 1, Stdout_migrated 4096 1] \<and>
   fst (main_start placed_boot) = [Sched_run_thread 4096 20 1, Stdout_migrated 4096 1]"
  using C10_migrated_line_unconditional [of unplaced_boot]
    C10_migrated_line_unconditional [of placed_boot]
  by (simp add: unplaced_boot_def placed_boot_def)

end
